theory Spec2Isabelle
  imports Main "HOL-Library.Multiset"
begin

section \<open>Request values\<close>

text \<open>
  The handlers of \<^verbatim>\<open>routes/notes.js\<close> and \<^verbatim>\<open>routes/folders.js\<close> read JSON values from
  \<^verbatim>\<open>req.body\<close> and \<^verbatim>\<open>req.query\<close> and test them with JavaScript's truthiness
  (\<^verbatim>\<open>if (!title)\<close>, \<^verbatim>\<open>if (searchTerm)\<close>). A JSON number is kept as an integer: the
  handlers only ask whether it is zero.
\<close>

datatype jsval =
    JUndefined
  | JNull
  | JBool bool
  | JNum int
  | JStr string
  | JArr "jsval list"
  | JObj "(string \<times> jsval) list"

fun truthy :: "jsval \<Rightarrow> bool" where
  "truthy JUndefined = False"
| "truthy JNull = False"
| "truthy (JBool b) = b"
| "truthy (JNum n) = (n \<noteq> 0)"
| "truthy (JStr s) = (s \<noteq> [])"
| "truthy (JArr vs) = True"
| "truthy (JObj kvs) = True"

type_synonym jsobject = "string \<rightharpoonup> jsval"

text \<open>Destructuring \<^verbatim>\<open>const { k } = obj\<close>: a missing key reads as \<^verbatim>\<open>undefined\<close>.\<close>

definition get_prop :: "jsobject \<Rightarrow> string \<Rightarrow> jsval" where
  "get_prop obj k = (case obj k of None \<Rightarrow> JUndefined | Some v \<Rightarrow> v)"

record request =
  params_id :: string
  query :: jsobject
  body :: jsobject
  originalUrl :: string

text \<open>A JavaScript \<^verbatim>\<open>Error\<close> with the two properties the routes read or set.\<close>

record js_error =
  err_message :: string
  err_status :: "nat option"
  err_code :: "nat option"

definition http_error :: "string \<Rightarrow> nat \<Rightarrow> js_error" where
  "http_error msg st = \<lparr>err_message = msg, err_status = Some st, err_code = None\<rparr>"

section \<open>Documents and storage calls\<close>

text \<open>
  A note or folder document as a handler receives it from the model. A field left out by
  \<^verbatim>\<open>.select(...)\<close>, or one the document does not have, is \<open>None\<close>.
\<close>

record note_doc =
  doc_id :: string
  title :: "string option"
  content :: "string option"
  folderId :: "string option"
  tags :: "string list option"
  created :: "nat option"
  score :: "nat option"

record folder_doc =
  folder_id :: string
  name :: "string option"

datatype dbval =
    Note_docs "note_doc list"
  | Note_doc note_doc
  | Folder_docs "folder_doc list"
  | Folder_doc folder_doc
  | Null

text \<open>What a promise of the model settles to: rejected (\<open>Inl\<close>) or resolved (\<open>Inr\<close>).\<close>

type_synonym reply = "js_error + dbval"

fun db_truthy :: "dbval \<Rightarrow> bool" where
  "db_truthy Null = False"
| "db_truthy v = True"

fun id_of :: "dbval \<Rightarrow> string option" where
  "id_of (Note_doc d) = Some (doc_id d)"
| "id_of (Folder_doc f) = Some (folder_id f)"
| "id_of v = None"

text \<open>
  The arguments of \<^verbatim>\<open>Note.find(filter, projection).select(...).sort(sort)\<close>:
  \<^verbatim>\<open>filter.$text = { $search: v }\<close>, \<^verbatim>\<open>projection.score = { $meta: 'textScore' }\<close>, and a
  sort that is either a path or the projection object itself.
\<close>

record note_filter =
  text_search :: "jsval option"

record note_projection =
  score_meta :: bool

datatype sort_arg = Sort_path string | Sort_by note_projection

datatype db_call =
    Note_find note_filter note_projection "string list" sort_arg
  | Note_findById string "string list"
  | Note_create jsval jsval
  | Note_findByIdAndUpdate string jsval jsval "string list"
  | Note_findByIdAndRemove string
  | Folder_findById string
  | Folder_create jsval
  | Folder_findByIdAndUpdate string jsval
  | Folder_findByIdAndRemove string

section \<open>The route handlers\<close>

text \<open>
  What a handler does with the request in the end: it sends a JSON response
  (\<^verbatim>\<open>res.json\<close>, with the status and the Location header set before), ends the response
  with a bare status, or hands over to the next middleware with or without an error.
\<close>

datatype outcome =
    Res_json nat "string option" dbval
  | Res_end nat
  | Next "js_error option"

text \<open>
  A handler either finishes at once or makes one storage call and finishes from the reply
  (its \<^verbatim>\<open>.then\<close> and \<^verbatim>\<open>.catch\<close> callbacks).
\<close>

datatype step = Finish outcome | Storage db_call "reply \<Rightarrow> outcome"

text \<open>\<^verbatim>\<open>.then(results => { res.json(results); }).catch(next)\<close>\<close>

definition json_reply :: "reply \<Rightarrow> outcome" where
  "json_reply r = (case r of Inl err \<Rightarrow> Next (Some err) | Inr results \<Rightarrow> Res_json 200 None results)"

text \<open>\<^verbatim>\<open>.then(result => { if (result) { res.json(result); } else { next(); } }).catch(next)\<close>\<close>

definition json_or_next :: "reply \<Rightarrow> outcome" where
  "json_or_next r =
     (case r of
        Inl err \<Rightarrow> Next (Some err)
      | Inr result \<Rightarrow> if db_truthy result then Res_json 200 None result else Next None)"

text \<open>
  \<^verbatim>\<open>res.location(`${req.originalUrl}/${result.id}`).status(201).json(result)\<close>; reading
  \<^verbatim>\<open>result.id\<close> of \<^verbatim>\<open>null\<close> throws, and the throw reaches the \<^verbatim>\<open>.catch\<close> of the chain.
\<close>

definition type_error :: js_error where
  "type_error = \<lparr>err_message = ''Cannot read property id'', err_status = None, err_code = None\<rparr>"

definition created_reply :: "request \<Rightarrow> dbval \<Rightarrow> (js_error \<Rightarrow> outcome) \<Rightarrow> outcome" where
  "created_reply req result catch =
     (case id_of result of
        None \<Rightarrow> (if result = Null then catch type_error
                  else Res_json 201 (Some (originalUrl req @ ''/undefined'')) result)
      | Some i \<Rightarrow> Res_json 201 (Some (originalUrl req @ ''/'' @ i)) result)"

definition get_notes :: "request \<Rightarrow> step" where
  "get_notes req =
     (let searchTerm = get_prop (query req) ''searchTerm'';
          filter0 = \<lparr>text_search = None\<rparr>;
          projection0 = \<lparr>score_meta = False\<rparr>;
          sort0 = Sort_path ''created'';
          filter1 = (if truthy searchTerm then filter0\<lparr>text_search := Some searchTerm\<rparr> else filter0);
          projection1 = (if truthy searchTerm then projection0\<lparr>score_meta := True\<rparr> else projection0);
          sort1 = (if truthy searchTerm then Sort_by projection1 else sort0)
      in Storage (Note_find filter1 projection1 [''title'', ''content'', ''created''] sort1) json_reply)"

definition get_notes_id :: "(string \<Rightarrow> bool) \<Rightarrow> request \<Rightarrow> step" where
  "get_notes_id isValid req =
     (let id = params_id req in
      if \<not> isValid id then Finish (Next (Some (http_error ''The `id` is not valid'' 400)))
      else Storage (Note_findById id [''id'', ''title'', ''content'']) json_or_next)"

definition post_notes :: "request \<Rightarrow> step" where
  "post_notes req =
     (let title = get_prop (body req) ''title'';
          content = get_prop (body req) ''content'' in
      if \<not> truthy title then Finish (Next (Some (http_error ''Missing `title` in request body'' 400)))
      else Storage (Note_create title content)
             (\<lambda>r. case r of
                     Inl err \<Rightarrow> Next (Some err)
                   | Inr result \<Rightarrow> created_reply req result (\<lambda>err. Next (Some err))))"

definition put_notes_id :: "(string \<Rightarrow> bool) \<Rightarrow> request \<Rightarrow> step" where
  "put_notes_id isValid req =
     (let id = params_id req;
          title = get_prop (body req) ''title'';
          content = get_prop (body req) ''content'' in
      if \<not> truthy title then Finish (Next (Some (http_error ''Missing `title` in request body'' 400)))
      else if \<not> isValid id then Finish (Next (Some (http_error ''The `id` is not valid'' 400)))
      else Storage (Note_findByIdAndUpdate id title content [''id'', ''title'', ''content''])
             json_or_next)"

definition delete_notes_id :: "request \<Rightarrow> step" where
  "delete_notes_id req =
     (let id = params_id req in
      Storage (Note_findByIdAndRemove id)
        (\<lambda>r. case r of
                Inl err \<Rightarrow> Next (Some err)
              | Inr cnt \<Rightarrow> if db_truthy cnt then Res_end 204 else Next None))"

definition get_folders_id :: "(string \<Rightarrow> bool) \<Rightarrow> request \<Rightarrow> step" where
  "get_folders_id isValid req =
     (let id = params_id req in
      if \<not> isValid id then Finish (Next (Some (http_error ''The `id` is not valid'' 400)))
      else Storage (Folder_findById id) json_or_next)"

text \<open>
  The \<^verbatim>\<open>.catch\<close> of the folder creation:
  \<^verbatim>\<open>if (err.code === 11000) { err = new Error('The folder name already exists'); err.status = 400; } next(err);\<close>
\<close>

definition duplicate_catch :: "js_error \<Rightarrow> outcome" where
  "duplicate_catch err =
     (if err_code err = Some 11000 then Next (Some (http_error ''The folder name already exists'' 400))
      else Next (Some err))"

definition post_folders :: "request \<Rightarrow> step" where
  "post_folders req =
     (let name = get_prop (body req) ''name'' in
      if \<not> truthy name then Finish (Next (Some (http_error ''Missing `name` in request body'' 400)))
      else Storage (Folder_create name)
             (\<lambda>r. case r of
                     Inl err \<Rightarrow> duplicate_catch err
                   | Inr result \<Rightarrow> created_reply req result duplicate_catch))"

definition put_folders_id :: "(string \<Rightarrow> bool) \<Rightarrow> request \<Rightarrow> step" where
  "put_folders_id isValid req =
     (let id = params_id req;
          name = get_prop (body req) ''name'' in
      if \<not> truthy name then Finish (Next (Some (http_error ''Missing `name` in request body'' 400)))
      else if \<not> isValid id then Finish (Next (Some (http_error ''The `id` is not valid'' 400)))
      else Storage (Folder_findByIdAndUpdate id name) json_or_next)"

definition delete_folders_id :: "request \<Rightarrow> step" where
  "delete_folders_id req =
     (let id = params_id req in
      Storage (Folder_findByIdAndRemove id)
        (\<lambda>r. case r of Inl err \<Rightarrow> Next (Some err) | Inr removed \<Rightarrow> Res_end 204))"

section \<open>The document store\<close>

text \<open>
  Modelled from the spec: the Note and Folder models (\<^verbatim>\<open>models/note.js\<close>,
  \<^verbatim>\<open>models/folder.js\<close>) and the document database behind them are not under
  \<^verbatim>\<open>src/\<close>. The spec gives a note a required title, a content, an optional folder
  reference, tag references and an auto-assigned creation timestamp, and a folder a
  required name that the storage layer keeps unique; identifiers are generated by the
  store. The collections are lists in insertion order.
\<close>

record store =
  stored_notes :: "note_doc list"
  stored_folders :: "folder_doc list"
  clock :: nat

text \<open>
  What the library and the database decide and the repository does not: which strings are
  identifiers (\<^verbatim>\<open>mongoose.Types.ObjectId.isValid\<close>), how a schema casts a value that is
  not a string to a string path, the relevance score of a note for a search string (zero:
  no match), and the identifier given to a new document.
\<close>

record mongoose =
  isValid :: "string \<Rightarrow> bool"
  castString :: "jsval \<Rightarrow> js_error + string option"
  textScore :: "string \<Rightarrow> note_doc \<Rightarrow> nat"
  newId :: "store \<Rightarrow> string"

definition cast_error :: js_error where
  "cast_error = \<lparr>err_message = ''Cast to ObjectId failed'', err_status = None, err_code = None\<rparr>"

definition search_error :: js_error where
  "search_error = \<lparr>err_message = ''$search must be a string'', err_status = None, err_code = None\<rparr>"

definition required_error :: js_error where
  "required_error = \<lparr>err_message = ''Path is required'', err_status = None, err_code = None\<rparr>"

definition duplicate_key_error :: js_error where
  "duplicate_key_error =
     \<lparr>err_message = ''E11000 duplicate key error'', err_status = None, err_code = Some 11000\<rparr>"

text \<open>Modelled from the spec: a text path takes a string as it is; an absent value stays absent.\<close>

definition schema_string :: "mongoose \<Rightarrow> jsval \<Rightarrow> js_error + string option" where
  "schema_string M v =
     (case v of
        JStr s \<Rightarrow> Inr (Some s)
      | JUndefined \<Rightarrow> Inr None
      | JNull \<Rightarrow> Inr None
      | JBool b \<Rightarrow> castString M v
      | JNum n \<Rightarrow> castString M v
      | JArr vs \<Rightarrow> castString M v
      | JObj kvs \<Rightarrow> castString M v)"

text \<open>
  Modelled from the spec: \<^verbatim>\<open>.select\<close> keeps the listed paths (all of them when none is
  listed) and always the identifier; the score is there when the projection asks for it.
\<close>

definition keeps :: "string list \<Rightarrow> string \<Rightarrow> bool" where
  "keeps sel f = (if sel = [] then True else f \<in> set sel)"

definition select_note :: "string list \<Rightarrow> note_projection \<Rightarrow> note_doc \<Rightarrow> note_doc" where
  "select_note sel pr d =
     \<lparr>doc_id = doc_id d,
      title = (if keeps sel ''title'' then title d else None),
      content = (if keeps sel ''content'' then content d else None),
      folderId = (if keeps sel ''folderId'' then folderId d else None),
      tags = (if keeps sel ''tags'' then tags d else None),
      created = (if keeps sel ''created'' then created d else None),
      score = (if score_meta pr then score d else None)\<rparr>"

text \<open>
  Modelled from the spec: a full-text filter keeps the notes with a positive relevance
  score for the search string and attaches the score; no filter keeps every note.
\<close>

definition text_matches :: "mongoose \<Rightarrow> note_filter \<Rightarrow> note_doc list \<Rightarrow> js_error + note_doc list" where
  "text_matches M f ds =
     (case text_search f of
        None \<Rightarrow> Inr ds
      | Some v \<Rightarrow>
          (case v of
             JStr s \<Rightarrow>
               Inr (map (\<lambda>d. d\<lparr>score := Some (textScore M s d)\<rparr>)
                      (filter (\<lambda>d. 0 < textScore M s d) ds))
           | JUndefined \<Rightarrow> Inl search_error
           | JNull \<Rightarrow> Inl search_error
           | JBool b \<Rightarrow> Inl search_error
           | JNum n \<Rightarrow> Inl search_error
           | JArr vs \<Rightarrow> Inl search_error
           | JObj kvs \<Rightarrow> Inl search_error))"

definition created_key :: "note_doc \<Rightarrow> nat" where
  "created_key d = (case created d of None \<Rightarrow> 0 | Some t \<Rightarrow> t)"

definition score_of :: "note_doc \<Rightarrow> nat" where
  "score_of d = (case score d of None \<Rightarrow> 0 | Some k \<Rightarrow> k)"

text \<open>
  Modelled from the spec: sorting by the path \<^verbatim>\<open>created\<close> is ascending in the creation
  time, sorting by the text score is descending in the score, and both keep the stored
  order among equals. \<^verbatim>\<open>created\<close> is the only path the note routes sort by.
\<close>

definition sort_notes :: "sort_arg \<Rightarrow> note_doc list \<Rightarrow> note_doc list" where
  "sort_notes srt ds =
     (case srt of
        Sort_path p \<Rightarrow> (if p = ''created'' then sort_key created_key ds else ds)
      | Sort_by pr \<Rightarrow> (if score_meta pr then sort_key (\<lambda>d. - int (score_of d)) ds else ds))"

definition find_note :: "string \<Rightarrow> note_doc list \<Rightarrow> note_doc option" where
  "find_note i ds = find (\<lambda>d. doc_id d = i) ds"

fun replace_note :: "note_doc \<Rightarrow> note_doc list \<Rightarrow> note_doc list" where
  "replace_note d' [] = []"
| "replace_note d' (d # ds) = (if doc_id d = doc_id d' then d' # ds else d # replace_note d' ds)"

fun remove_note :: "string \<Rightarrow> note_doc list \<Rightarrow> note_doc list" where
  "remove_note i [] = []"
| "remove_note i (d # ds) = (if doc_id d = i then ds else d # remove_note i ds)"

definition find_folder :: "string \<Rightarrow> folder_doc list \<Rightarrow> folder_doc option" where
  "find_folder i fs = find (\<lambda>f. folder_id f = i) fs"

fun replace_folder :: "folder_doc \<Rightarrow> folder_doc list \<Rightarrow> folder_doc list" where
  "replace_folder f' [] = []"
| "replace_folder f' (f # fs) =
     (if folder_id f = folder_id f' then f' # fs else f # replace_folder f' fs)"

fun remove_folder :: "string \<Rightarrow> folder_doc list \<Rightarrow> folder_doc list" where
  "remove_folder i [] = []"
| "remove_folder i (f # fs) = (if folder_id f = i then fs else f # remove_folder i fs)"

text \<open>Modelled from the spec: a folder of the list already has the name (the uniqueness constraint).\<close>

definition name_taken :: "string option \<Rightarrow> folder_doc list \<Rightarrow> bool" where
  "name_taken n fs = list_ex (\<lambda>f. name f = n) fs"

definition no_projection :: note_projection where
  "no_projection = \<lparr>score_meta = False\<rparr>"

text \<open>
  Modelled from the spec: one storage call on the store, giving what the promise settles
  to and the store afterwards. A call by identifier is rejected when the identifier does
  not cast; \<^verbatim>\<open>findByIdAndUpdate\<close> sets the given paths and (with \<^verbatim>\<open>new: true\<close>)
  resolves to the updated document, or to \<^verbatim>\<open>null\<close> when no document has the identifier.
\<close>

fun exec :: "mongoose \<Rightarrow> db_call \<Rightarrow> store \<Rightarrow> reply \<times> store" where
  "exec M (Note_find f pr sel srt) s =
     (case text_matches M f (stored_notes s) of
        Inl e \<Rightarrow> (Inl e, s)
      | Inr ds \<Rightarrow> (Inr (Note_docs (map (select_note sel pr) (sort_notes srt ds))), s))"
| "exec M (Note_findById i sel) s =
     (if \<not> isValid M i then (Inl cast_error, s)
      else case find_note i (stored_notes s) of
             None \<Rightarrow> (Inr Null, s)
           | Some d \<Rightarrow> (Inr (Note_doc (select_note sel no_projection d)), s))"
| "exec M (Note_create t c) s =
     (case schema_string M t of
        Inl e \<Rightarrow> (Inl e, s)
      | Inr None \<Rightarrow> (Inl required_error, s)
      | Inr (Some t') \<Rightarrow>
          (case schema_string M c of
             Inl e \<Rightarrow> (Inl e, s)
           | Inr c' \<Rightarrow>
               (let d = \<lparr>doc_id = newId M s, title = Some t', content = c', folderId = None,
                          tags = Some [], created = Some (clock s), score = None\<rparr>
                in (Inr (Note_doc d), s\<lparr>stored_notes := stored_notes s @ [d]\<rparr>))))"
| "exec M (Note_findByIdAndUpdate i t c sel) s =
     (if \<not> isValid M i then (Inl cast_error, s)
      else case schema_string M t of
             Inl e \<Rightarrow> (Inl e, s)
           | Inr t' \<Rightarrow>
               (case schema_string M c of
                  Inl e \<Rightarrow> (Inl e, s)
                | Inr c' \<Rightarrow>
                    (case find_note i (stored_notes s) of
                       None \<Rightarrow> (Inr Null, s)
                     | Some d \<Rightarrow>
                         (let d' = d\<lparr>title := t', content := c'\<rparr>
                          in (Inr (Note_doc (select_note sel no_projection d')),
                              s\<lparr>stored_notes := replace_note d' (stored_notes s)\<rparr>)))))"
| "exec M (Note_findByIdAndRemove i) s =
     (if \<not> isValid M i then (Inl cast_error, s)
      else case find_note i (stored_notes s) of
             None \<Rightarrow> (Inr Null, s)
           | Some d \<Rightarrow> (Inr (Note_doc d), s\<lparr>stored_notes := remove_note i (stored_notes s)\<rparr>))"
| "exec M (Folder_findById i) s =
     (if \<not> isValid M i then (Inl cast_error, s)
      else case find_folder i (stored_folders s) of
             None \<Rightarrow> (Inr Null, s)
           | Some f \<Rightarrow> (Inr (Folder_doc f), s))"
| "exec M (Folder_create n) s =
     (case schema_string M n of
        Inl e \<Rightarrow> (Inl e, s)
      | Inr None \<Rightarrow> (Inl required_error, s)
      | Inr (Some n') \<Rightarrow>
          (if name_taken (Some n') (stored_folders s) then (Inl duplicate_key_error, s)
           else (let f = \<lparr>folder_id = newId M s, name = Some n'\<rparr>
                 in (Inr (Folder_doc f), s\<lparr>stored_folders := stored_folders s @ [f]\<rparr>))))"
| "exec M (Folder_findByIdAndUpdate i n) s =
     (if \<not> isValid M i then (Inl cast_error, s)
      else case schema_string M n of
             Inl e \<Rightarrow> (Inl e, s)
           | Inr n' \<Rightarrow>
               (case find_folder i (stored_folders s) of
                  None \<Rightarrow> (Inr Null, s)
                | Some f \<Rightarrow>
                    (if name_taken n' (filter (\<lambda>g. folder_id g \<noteq> i) (stored_folders s)) then (Inl duplicate_key_error, s)
                     else (let f' = f\<lparr>name := n'\<rparr>
                           in (Inr (Folder_doc f'), s\<lparr>stored_folders := replace_folder f' (stored_folders s)\<rparr>)))))"
| "exec M (Folder_findByIdAndRemove i) s =
     (if \<not> isValid M i then (Inl cast_error, s)
      else case find_folder i (stored_folders s) of
             None \<Rightarrow> (Inr Null, s)
           | Some f \<Rightarrow> (Inr (Folder_doc f), s\<lparr>stored_folders := remove_folder i (stored_folders s)\<rparr>))"

section \<open>Serving a request\<close>

datatype payload = Json dbval | Message string | Empty

record response =
  status :: nat
  location :: "string option"
  payload :: payload

text \<open>
  Modelled from the spec: the last stage of the application (\<^verbatim>\<open>server.js\<close>, not under
  \<^verbatim>\<open>src/\<close>). A request handed on without an error ends as 404; an error ends with its
  own status and message, and with 500 when it has no status.
\<close>

definition respond :: "outcome \<Rightarrow> response" where
  "respond out =
     (case out of
        Res_json st loc v \<Rightarrow> \<lparr>status = st, location = loc, payload = Json v\<rparr>
      | Res_end st \<Rightarrow> \<lparr>status = st, location = None, payload = Empty\<rparr>
      | Next None \<Rightarrow> \<lparr>status = 404, location = None, payload = Empty\<rparr>
      | Next (Some err) \<Rightarrow>
          \<lparr>status = (case err_status err of None \<Rightarrow> 500 | Some st \<Rightarrow> st),
           location = None, payload = Message (err_message err)\<rparr>)"

text \<open>
  One request: the response sent, the store afterwards, and the storage calls made on the
  way, in order.
\<close>

record served =
  sent :: response
  store_after :: store
  calls :: "db_call list"

definition serve :: "mongoose \<Rightarrow> (request \<Rightarrow> step) \<Rightarrow> store \<Rightarrow> request \<Rightarrow> served" where
  "serve M handler s req =
     (case handler req of
        Finish out \<Rightarrow> \<lparr>sent = respond out, store_after = s, calls = []\<rparr>
      | Storage call k \<Rightarrow>
          (case exec M call s of
             (r, s') \<Rightarrow> \<lparr>sent = respond (k r), store_after = s', calls = [call]\<rparr>))"

definition error_response :: "nat \<Rightarrow> string \<Rightarrow> response" where
  "error_response st msg = \<lparr>status = st, location = None, payload = Message msg\<rparr>"

section \<open>A library instance and a store to evaluate on\<close>

text \<open>
  Modelled from the spec: identifiers are strings in a fixed-length hexadecimal format
  (24 hexadecimal digits).
\<close>

definition hex24 :: "string \<Rightarrow> bool" where
  "hex24 i = (length i = 24 \<and> list_all (\<lambda>c. c \<in> set ''0123456789abcdefABCDEF'') i)"

text \<open>
  A relevance score for the examples: a note scores 2 when its title is the search string,
  plus 1 when its content is.
\<close>

definition sample_score :: "string \<Rightarrow> note_doc \<Rightarrow> nat" where
  "sample_score q d = (if title d = Some q then 2 else 0) + (if content d = Some q then 1 else 0)"

definition sample_lib :: mongoose where
  "sample_lib =
     \<lparr>isValid = hex24,
      castString = (\<lambda>v. Inl cast_error),
      textScore = sample_score,
      newId = (\<lambda>s. ''5a9f2b6c1d8e4f0a7b3c9d10'')\<rparr>"

text \<open>
  \<^verbatim>\<open>mongoose.Types.ObjectId.isValid\<close> is the library's function, not code of the
  repository. For a string it accepts 24 hexadecimal digits, and also every string of
  exactly 12 characters (the 12 bytes of an identifier), whatever the characters.
\<close>

definition objectId_isValid :: "string \<Rightarrow> bool" where
  "objectId_isValid i = (length i = 12 \<or> hex24 i)"

definition bson_lib :: mongoose where
  "bson_lib = sample_lib\<lparr>isValid := objectId_isValid\<rparr>"

definition note1 :: note_doc where
  "note1 =
     \<lparr>doc_id = ''000000000000000000000001'', title = Some ''cats'', content = Some ''gaga'',
      folderId = Some ''111111111111111111111101'', tags = Some [''222222222222222222222201''],
      created = Some 20, score = None\<rparr>"

definition note2 :: note_doc where
  "note2 =
     \<lparr>doc_id = ''000000000000000000000002'', title = Some ''gaga'', content = Some ''dogs'',
      folderId = None, tags = Some [], created = Some 10, score = None\<rparr>"

definition folder1 :: folder_doc where
  "folder1 = \<lparr>folder_id = ''111111111111111111111101'', name = Some ''Archive''\<rparr>"

definition folder2 :: folder_doc where
  "folder2 = \<lparr>folder_id = ''111111111111111111111102'', name = Some ''Drafts''\<rparr>"

definition sample_store :: store where
  "sample_store = \<lparr>stored_notes = [note1, note2], stored_folders = [folder1, folder2], clock = 30\<rparr>"

definition request_for :: "string \<Rightarrow> (string \<times> jsval) list \<Rightarrow> (string \<times> jsval) list \<Rightarrow> string \<Rightarrow> request" where
  "request_for i q b url = \<lparr>params_id = i, query = map_of q, body = map_of b, originalUrl = url\<rparr>"

section \<open>Facts about the store\<close>

lemmas handler_defs = get_notes_def get_notes_id_def post_notes_def put_notes_id_def
  delete_notes_id_def get_folders_id_def post_folders_def put_folders_id_def delete_folders_id_def

lemmas eval_defs = Let_def serve_def get_prop_def respond_def json_reply_def json_or_next_def
  created_reply_def http_error_def error_response_def request_for_def
  sample_lib_def sample_store_def sample_score_def hex24_def note1_def note2_def folder1_def folder2_def
  text_matches_def sort_notes_def select_note_def keeps_def score_of_def created_key_def
  find_note_def find_folder_def name_taken_def no_projection_def schema_string_def
  cast_error_def duplicate_key_error_def required_error_def search_error_def type_error_def
  duplicate_catch_def

lemma find_note_id: "find_note i ds = Some d \<Longrightarrow> doc_id d = i"
  by (induction ds) (auto simp: find_note_def split: if_splits)

lemma find_note_append:
  "find_note i ds = None \<Longrightarrow> find_note i (ds @ [d]) = (if doc_id d = i then Some d else None)"
  by (induction ds) (auto simp: find_note_def split: if_splits)

lemma find_note_replace:
  "find_note i ds = Some d \<Longrightarrow> doc_id d' = i \<Longrightarrow>
   find_note j (replace_note d' ds) = (if j = i then Some d' else find_note j ds)"
  by (induction ds) (auto simp: find_note_def split: if_splits)

lemma score_of_select: "score_of (select_note sel \<lparr>score_meta = True\<rparr> d) = score_of d"
  by (simp add: score_of_def select_note_def)

lemma created_key_select:
  "created_key (select_note [''title'', ''content'', ''created''] pr d) = created_key d"
  by (simp add: created_key_def select_note_def keeps_def)

lemma doc_id_select: "doc_id (select_note sel pr d) = doc_id d"
  by (simp add: select_note_def)

lemma sorted_desc_sort_key:
  "sorted_wrt (\<lambda>a b. score_of b \<le> score_of a) (sort_key (\<lambda>d. - int (score_of d)) ds)"
proof -
  have "sorted (map (\<lambda>d. - int (score_of d)) (sort_key (\<lambda>d. - int (score_of d)) ds))"
    by (rule sorted_sort_key)
  then show ?thesis
    by (simp add: sorted_map)
qed

lemma sorted_created_sort_key:
  "sorted_wrt (\<lambda>a b. created_key a \<le> created_key b) (sort_key created_key ds)"
proof -
  have "sorted (map created_key (sort_key created_key ds))"
    by (rule sorted_sort_key)
  then show ?thesis
    by (simp add: sorted_map)
qed

lemma find_folder_id: "find_folder i fs = Some f \<Longrightarrow> folder_id f = i"
  by (induction fs) (auto simp: find_folder_def split: if_splits)

lemma get_notes_plain:
  "\<not> truthy (get_prop (query req) ''searchTerm'') \<Longrightarrow>
   serve M get_notes s req =
     \<lparr>sent = \<lparr>status = 200, location = None,
              payload = Json (Note_docs
                (map (select_note [''title'', ''content'', ''created''] no_projection)
                   (sort_key created_key (stored_notes s))))\<rparr>,
      store_after = s,
      calls = [Note_find \<lparr>text_search = None\<rparr> \<lparr>score_meta = False\<rparr>
                 [''title'', ''content'', ''created''] (Sort_path ''created'')]\<rparr>"
  by (simp add: Let_def serve_def get_notes_def text_matches_def sort_notes_def
      json_reply_def respond_def no_projection_def)

lemma get_notes_search:
  "get_prop (query req) ''searchTerm'' = JStr q \<Longrightarrow> q \<noteq> [] \<Longrightarrow>
   serve M get_notes s req =
     \<lparr>sent = \<lparr>status = 200, location = None,
              payload = Json (Note_docs
                (map (select_note [''title'', ''content'', ''created''] \<lparr>score_meta = True\<rparr>)
                   (sort_key (\<lambda>d. - int (score_of d))
                      (map (\<lambda>d. d\<lparr>score := Some (textScore M q d)\<rparr>)
                         (filter (\<lambda>d. 0 < textScore M q d) (stored_notes s))))))\<rparr>,
      store_after = s,
      calls = [Note_find \<lparr>text_search = Some (JStr q)\<rparr> \<lparr>score_meta = True\<rparr>
                 [''title'', ''content'', ''created''] (Sort_by \<lparr>score_meta = True\<rparr>)]\<rparr>"
  by (simp add: Let_def serve_def get_notes_def text_matches_def sort_notes_def
      json_reply_def respond_def)

section \<open>Listing notes\<close>

text \<open>
  C1. \<^verbatim>\<open>GET /api/notes\<close>. With a non-empty string as \<^verbatim>\<open>searchTerm\<close> the response is 200
  with the notes that match the full-text filter (a positive relevance score), each once,
  with its title, content and score, in descending order of the score. Without the
  parameter the response is 200 with every stored note, in ascending order of the
  creation time. When nothing matches the response is still 200, with an empty array.
\<close>

theorem list_notes:
  "(query req ''searchTerm'' = Some (JStr q) \<and> q \<noteq> [] \<longrightarrow>
      (\<exists>ds. sent (serve M get_notes s req)
               = \<lparr>status = 200, location = None, payload = Json (Note_docs ds)\<rparr> \<and>
            mset (map doc_id ds)
               = mset (map doc_id (filter (\<lambda>d. 0 < textScore M q d) (stored_notes s))) \<and>
            sorted_wrt (\<lambda>a b. score_of b \<le> score_of a) ds \<and>
            (\<forall>d \<in> set ds. \<exists>n \<in> set (stored_notes s).
                doc_id d = doc_id n \<and> title d = title n \<and> content d = content n \<and>
                score d = Some (textScore M q n) \<and> 0 < textScore M q n) \<and>
            (filter (\<lambda>d. 0 < textScore M q d) (stored_notes s) = [] \<longrightarrow> ds = []))) \<and>
   (query req ''searchTerm'' = None \<longrightarrow>
      (\<exists>ds. sent (serve M get_notes s req)
               = \<lparr>status = 200, location = None, payload = Json (Note_docs ds)\<rparr> \<and>
            mset ds = mset (map (select_note [''title'', ''content'', ''created''] no_projection)
                             (stored_notes s)) \<and>
            sorted_wrt (\<lambda>a b. created_key a \<le> created_key b) ds \<and>
            length ds = length (stored_notes s)))"
proof (intro conjI impI)
  assume a: "query req ''searchTerm'' = Some (JStr q) \<and> q \<noteq> []"
  let ?m = "filter (\<lambda>d. 0 < textScore M q d) (stored_notes s)"
  let ?scored = "map (\<lambda>d. d\<lparr>score := Some (textScore M q d)\<rparr>) ?m"
  let ?ds = "map (select_note [''title'', ''content'', ''created''] \<lparr>score_meta = True\<rparr>)
               (sort_key (\<lambda>d. - int (score_of d)) ?scored)"
  have sent: "sent (serve M get_notes s req)
               = \<lparr>status = 200, location = None, payload = Json (Note_docs ?ds)\<rparr>"
    using a
    by (simp add: Let_def serve_def get_notes_def get_prop_def text_matches_def sort_notes_def
        json_reply_def respond_def)
  have ids: "mset (map doc_id ?ds) = mset (map doc_id ?m)"
  proof -
    have e1: "map doc_id ?ds = map doc_id (sort_key (\<lambda>d. - int (score_of d)) ?scored)"
      by (simp add: doc_id_select comp_def)
    have e2: "map doc_id ?scored = map doc_id ?m"
      by (simp add: comp_def)
    have "mset (map doc_id ?ds) = image_mset doc_id (mset (sort_key (\<lambda>d. - int (score_of d)) ?scored))"
      by (simp only: e1 mset_map)
    also have "\<dots> = image_mset doc_id (mset ?scored)"
      by (simp only: mset_sort)
    also have "\<dots> = mset (map doc_id ?m)"
      by (simp only: e2 mset_map [symmetric])
    finally show ?thesis .
  qed
  have desc: "sorted_wrt (\<lambda>a b. score_of b \<le> score_of a) ?ds"
    using sorted_desc_sort_key [of ?scored]
    by (simp add: sorted_wrt_map score_of_select)
  have each: "\<forall>d \<in> set ?ds. \<exists>n \<in> set (stored_notes s).
                doc_id d = doc_id n \<and> title d = title n \<and> content d = content n \<and>
                score d = Some (textScore M q n) \<and> 0 < textScore M q n"
    by (auto simp: select_note_def keeps_def)
  have none: "?m = [] \<longrightarrow> ?ds = []"
    by simp
  from sent ids desc each none
  show "\<exists>ds. sent (serve M get_notes s req)
               = \<lparr>status = 200, location = None, payload = Json (Note_docs ds)\<rparr> \<and>
            mset (map doc_id ds) = mset (map doc_id ?m) \<and>
            sorted_wrt (\<lambda>a b. score_of b \<le> score_of a) ds \<and>
            (\<forall>d \<in> set ds. \<exists>n \<in> set (stored_notes s).
                doc_id d = doc_id n \<and> title d = title n \<and> content d = content n \<and>
                score d = Some (textScore M q n) \<and> 0 < textScore M q n) \<and>
            (?m = [] \<longrightarrow> ds = [])"
    by blast
next
  assume a: "query req ''searchTerm'' = None"
  let ?sel = "select_note [''title'', ''content'', ''created''] no_projection"
  let ?ds = "map ?sel (sort_key created_key (stored_notes s))"
  have sent: "sent (serve M get_notes s req)
               = \<lparr>status = 200, location = None, payload = Json (Note_docs ?ds)\<rparr>"
    using a
    by (simp add: Let_def serve_def get_notes_def get_prop_def text_matches_def sort_notes_def
        json_reply_def respond_def no_projection_def)
  have perm: "mset ?ds = mset (map ?sel (stored_notes s))"
    by simp
  have asc: "sorted_wrt (\<lambda>a b. created_key a \<le> created_key b) ?ds"
    using sorted_created_sort_key [of "stored_notes s"]
    by (simp add: sorted_wrt_map created_key_select)
  have len: "length ?ds = length (stored_notes s)"
    by simp
  from sent perm asc len
  show "\<exists>ds. sent (serve M get_notes s req)
               = \<lparr>status = 200, location = None, payload = Json (Note_docs ds)\<rparr> \<and>
            mset ds = mset (map ?sel (stored_notes s)) \<and>
            sorted_wrt (\<lambda>a b. created_key a \<le> created_key b) ds \<and>
            length ds = length (stored_notes s)"
    by blast
qed


text \<open>
  C1 on the sample store: the search for \<^verbatim>\<open>gaga\<close> finds both notes, the title match
  first; the plain listing has both notes.
\<close>

theorem list_notes_witness:
  "query (request_for [] [(''searchTerm'', JStr ''gaga'')] [] ''/api/notes?searchTerm=gaga'') ''searchTerm''
     = Some (JStr ''gaga'') \<and>
   query (request_for [] [] [] ''/api/notes'') ''searchTerm'' = None \<and>
   (\<exists>ds. sent (serve sample_lib get_notes sample_store
                  (request_for [] [(''searchTerm'', JStr ''gaga'')] [] ''/api/notes?searchTerm=gaga''))
            = \<lparr>status = 200, location = None, payload = Json (Note_docs ds)\<rparr> \<and>
          mset (map doc_id ds) = mset [doc_id note1, doc_id note2] \<and>
          sorted_wrt (\<lambda>a b. score_of b \<le> score_of a) ds) \<and>
   (\<exists>ds. sent (serve sample_lib get_notes sample_store (request_for [] [] [] ''/api/notes''))
            = \<lparr>status = 200, location = None, payload = Json (Note_docs ds)\<rparr> \<and>
          sorted_wrt (\<lambda>a b. created_key a \<le> created_key b) ds \<and>
          length ds = 2) \<and>
   sent (serve sample_lib get_notes sample_store
           (request_for [] [(''searchTerm'', JStr ''gaga'')] [] ''/api/notes?searchTerm=gaga''))
     = \<lparr>status = 200, location = None,
        payload = Json (Note_docs
          [\<lparr>doc_id = ''000000000000000000000002'', title = Some ''gaga'', content = Some ''dogs'',
            folderId = None, tags = None, created = Some 10, score = Some 2\<rparr>,
           \<lparr>doc_id = ''000000000000000000000001'', title = Some ''cats'', content = Some ''gaga'',
            folderId = None, tags = None, created = Some 20, score = Some 1\<rparr>])\<rparr>"
proof -
  let ?r1 = "request_for [] [(''searchTerm'', JStr ''gaga'')] [] ''/api/notes?searchTerm=gaga''"
  let ?r2 = "request_for [] [] [] ''/api/notes''"
  have h1: "query ?r1 ''searchTerm'' = Some (JStr ''gaga'') \<and> ''gaga'' \<noteq> []"
    by (simp add: request_for_def)
  have h2: "query ?r2 ''searchTerm'' = None"
    by (simp add: request_for_def)
  have m: "filter (\<lambda>d. 0 < textScore sample_lib ''gaga'' d) (stored_notes sample_store) = [note1, note2]"
    by (simp add: sample_lib_def sample_store_def sample_score_def note1_def note2_def)
  have n: "length (stored_notes sample_store) = 2"
    by (simp add: sample_store_def)
  from list_notes [of ?r1 "''gaga''" sample_lib sample_store] h1 m
  have c1: "\<exists>ds. sent (serve sample_lib get_notes sample_store ?r1)
            = \<lparr>status = 200, location = None, payload = Json (Note_docs ds)\<rparr> \<and>
          mset (map doc_id ds) = mset [doc_id note1, doc_id note2] \<and>
          sorted_wrt (\<lambda>a b. score_of b \<le> score_of a) ds"
    by auto
  from list_notes [of ?r2 _ sample_lib sample_store] h2 n
  have c2: "\<exists>ds. sent (serve sample_lib get_notes sample_store ?r2)
            = \<lparr>status = 200, location = None, payload = Json (Note_docs ds)\<rparr> \<and>
          sorted_wrt (\<lambda>a b. created_key a \<le> created_key b) ds \<and> length ds = 2"
    by auto
  have ev: "sent (serve sample_lib get_notes sample_store ?r1)
     = \<lparr>status = 200, location = None,
        payload = Json (Note_docs
          [\<lparr>doc_id = ''000000000000000000000002'', title = Some ''gaga'', content = Some ''dogs'',
            folderId = None, tags = None, created = Some 10, score = Some 2\<rparr>,
           \<lparr>doc_id = ''000000000000000000000001'', title = Some ''cats'', content = Some ''gaga'',
            folderId = None, tags = None, created = Some 20, score = Some 1\<rparr>])\<rparr>"
    by (simp add: get_notes_def eval_defs)
  from h1 h2 c1 c2 ev show ?thesis by blast
qed

section \<open>Identifier checks\<close>

text \<open>
  The guard \<^verbatim>\<open>if (!mongoose.Types.ObjectId.isValid(id))\<close> of the four handlers, for any
  test of the identifier: when the test fails the handler hands on the 400 error and makes
  no storage call.
\<close>

lemma guard_rejects:
  assumes "\<not> v (params_id req)"
  shows "serve M (get_notes_id v) s req
           = \<lparr>sent = error_response 400 ''The `id` is not valid'', store_after = s, calls = []\<rparr> \<and>
         (truthy (get_prop (body req) ''title'') \<longrightarrow>
          serve M (put_notes_id v) s req
            = \<lparr>sent = error_response 400 ''The `id` is not valid'', store_after = s, calls = []\<rparr>) \<and>
         serve M (get_folders_id v) s req
           = \<lparr>sent = error_response 400 ''The `id` is not valid'', store_after = s, calls = []\<rparr> \<and>
         (truthy (get_prop (body req) ''name'') \<longrightarrow>
          serve M (put_folders_id v) s req
            = \<lparr>sent = error_response 400 ''The `id` is not valid'', store_after = s, calls = []\<rparr>)"
  using assms
  by (simp add: Let_def serve_def handler_defs respond_def http_error_def error_response_def)

lemma guard_no_storage:
  assumes "\<not> v (params_id req)"
  shows "calls (serve M (put_notes_id v) s req) = [] \<and>
         store_after (serve M (put_notes_id v) s req) = s \<and>
         calls (serve M (put_folders_id v) s req) = [] \<and>
         store_after (serve M (put_folders_id v) s req) = s"
  using assms
  by (simp add: Let_def serve_def handler_defs)

text \<open>
  C2, as stated, fails for an identifier of 12 characters: \<^verbatim>\<open>abcdefghijkl\<close> is not of the
  hexadecimal shape, the library's test accepts it, and \<^verbatim>\<open>GET /api/notes/abcdefghijkl\<close>
  goes on to \<^verbatim>\<open>Note.findById\<close> and ends as 404, not as 400.
\<close>

theorem twelve_character_id_counterexample:
  "\<not> hex24 ''abcdefghijkl'' \<and>
   isValid bson_lib ''abcdefghijkl'' \<and>
   serve bson_lib (get_notes_id (isValid bson_lib)) sample_store
       (request_for ''abcdefghijkl'' [] [] ''/api/notes/abcdefghijkl'')
     = \<lparr>sent = \<lparr>status = 404, location = None, payload = Empty\<rparr>,
        store_after = sample_store,
        calls = [Note_findById ''abcdefghijkl'' [''id'', ''title'', ''content'']]\<rparr>"
  by (simp add: get_notes_id_def bson_lib_def objectId_isValid_def eval_defs)

text \<open>
  C2, amended. With the library's test of the identifier, for every identifier that is
  neither 24 hexadecimal digits nor exactly 12 characters long,
  \<^verbatim>\<open>GET /api/notes/:id\<close>, \<^verbatim>\<open>PUT /api/notes/:id\<close> with a non-empty title,
  \<^verbatim>\<open>GET /api/folders/:id\<close> and \<^verbatim>\<open>PUT /api/folders/:id\<close> with a non-empty name answer
  400 with the message \<^verbatim>\<open>The `id` is not valid\<close>.
\<close>

theorem invalid_id_400:
  assumes "isValid M = objectId_isValid"
      and "length (params_id req) \<noteq> 12" and "\<not> hex24 (params_id req)"
  shows "sent (serve M (get_notes_id (isValid M)) s req) = error_response 400 ''The `id` is not valid'' \<and>
         (truthy (get_prop (body req) ''title'') \<longrightarrow>
            sent (serve M (put_notes_id (isValid M)) s req) = error_response 400 ''The `id` is not valid'') \<and>
         sent (serve M (get_folders_id (isValid M)) s req) = error_response 400 ''The `id` is not valid'' \<and>
         (truthy (get_prop (body req) ''name'') \<longrightarrow>
            sent (serve M (put_folders_id (isValid M)) s req) = error_response 400 ''The `id` is not valid'')"
proof -
  have bad: "\<not> isValid M (params_id req)"
    using assms by (simp add: objectId_isValid_def)
  from guard_rejects [where v = "isValid M" and req = req, OF bad, of M s]
  show ?thesis by simp
qed

text \<open>
  C2 amended, at the identifier \<^verbatim>\<open>99-99-99\<close>.
\<close>

theorem invalid_id_400_witness:
  "isValid bson_lib = objectId_isValid \<and>
   length ''99-99-99'' \<noteq> 12 \<and> \<not> hex24 ''99-99-99'' \<and>
   sent (serve bson_lib (get_notes_id (isValid bson_lib)) sample_store
          (request_for ''99-99-99'' [] [(''title'', JStr ''What about dogs?!''), (''name'', JStr ''Dogs'')] ''/api/notes/99-99-99''))
     = error_response 400 ''The `id` is not valid'' \<and>
   sent (serve bson_lib (put_notes_id (isValid bson_lib)) sample_store
          (request_for ''99-99-99'' [] [(''title'', JStr ''What about dogs?!''), (''name'', JStr ''Dogs'')] ''/api/notes/99-99-99''))
     = error_response 400 ''The `id` is not valid'' \<and>
   sent (serve bson_lib (get_folders_id (isValid bson_lib)) sample_store
          (request_for ''99-99-99'' [] [(''title'', JStr ''What about dogs?!''), (''name'', JStr ''Dogs'')] ''/api/notes/99-99-99''))
     = error_response 400 ''The `id` is not valid'' \<and>
   sent (serve bson_lib (put_folders_id (isValid bson_lib)) sample_store
          (request_for ''99-99-99'' [] [(''title'', JStr ''What about dogs?!''), (''name'', JStr ''Dogs'')] ''/api/notes/99-99-99''))
     = error_response 400 ''The `id` is not valid''"
proof -
  let ?r = "request_for ''99-99-99'' [] [(''title'', JStr ''What about dogs?!''), (''name'', JStr ''Dogs'')] ''/api/notes/99-99-99''"
  have lib: "isValid bson_lib = objectId_isValid"
    by (simp add: bson_lib_def)
  have id: "params_id ?r = ''99-99-99''"
    by (simp add: request_for_def)
  have len: "length (params_id ?r) \<noteq> 12" and hex: "\<not> hex24 (params_id ?r)"
    by (simp_all add: id hex24_def)
  have t: "truthy (get_prop (body ?r) ''title'')" and n: "truthy (get_prop (body ?r) ''name'')"
    by (simp_all add: request_for_def get_prop_def)
  from invalid_id_400 [OF lib len hex, of sample_store] t n
  have c: "sent (serve bson_lib (get_notes_id (isValid bson_lib)) sample_store ?r)
             = error_response 400 ''The `id` is not valid'' \<and>
           sent (serve bson_lib (put_notes_id (isValid bson_lib)) sample_store ?r)
             = error_response 400 ''The `id` is not valid'' \<and>
           sent (serve bson_lib (get_folders_id (isValid bson_lib)) sample_store ?r)
             = error_response 400 ''The `id` is not valid'' \<and>
           sent (serve bson_lib (put_folders_id (isValid bson_lib)) sample_store ?r)
             = error_response 400 ''The `id` is not valid''"
    by blast
  from lib len [unfolded id] hex [unfolded id] c show ?thesis by (intro conjI) blast+
qed

text \<open>
  C3, as stated, fails twice. Both delete handlers pass the identifier to
  \<^verbatim>\<open>findByIdAndRemove\<close> without checking it, so \<^verbatim>\<open>99-99-99\<close> reaches the storage layer.
  And the library's test accepts 12 characters of any kind, so on \<^verbatim>\<open>GET\<close> and \<^verbatim>\<open>PUT\<close>
  the identifier \<^verbatim>\<open>abcdefghijkl\<close>, which is not of the hexadecimal shape, reaches
  \<^verbatim>\<open>findById\<close> and \<^verbatim>\<open>findByIdAndUpdate\<close>.
\<close>

theorem malformed_id_reaches_storage_counterexample:
  "\<not> hex24 ''99-99-99'' \<and> \<not> isValid bson_lib ''99-99-99'' \<and>
   calls (serve bson_lib delete_notes_id sample_store
            (request_for ''99-99-99'' [] [] ''/api/notes/99-99-99''))
     = [Note_findByIdAndRemove ''99-99-99''] \<and>
   calls (serve bson_lib delete_folders_id sample_store
            (request_for ''99-99-99'' [] [] ''/api/folders/99-99-99''))
     = [Folder_findByIdAndRemove ''99-99-99''] \<and>
   \<not> hex24 ''abcdefghijkl'' \<and>
   calls (serve bson_lib (get_notes_id (isValid bson_lib)) sample_store
            (request_for ''abcdefghijkl'' [] [] ''/api/notes/abcdefghijkl''))
     = [Note_findById ''abcdefghijkl'' [''id'', ''title'', ''content'']] \<and>
   calls (serve bson_lib (put_notes_id (isValid bson_lib)) sample_store
            (request_for ''abcdefghijkl'' [] [(''title'', JStr ''What about dogs?!'')]
               ''/api/notes/abcdefghijkl''))
     = [Note_findByIdAndUpdate ''abcdefghijkl'' (JStr ''What about dogs?!'') JUndefined
          [''id'', ''title'', ''content'']]"
  by (simp add: Let_def serve_def get_notes_id_def put_notes_id_def delete_notes_id_def
      delete_folders_id_def request_for_def get_prop_def bson_lib_def objectId_isValid_def
      hex24_def split: prod.split)

text \<open>
  C3, amended. With the library's test of the identifier, for \<^verbatim>\<open>GET\<close> and \<^verbatim>\<open>PUT\<close> on
  \<^verbatim>\<open>/api/notes/:id\<close> and \<^verbatim>\<open>/api/folders/:id\<close> an identifier that is neither 24
  hexadecimal digits nor exactly 12 characters long is rejected before any storage call:
  no call is made and the store is unchanged, whatever the body. \<^verbatim>\<open>DELETE\<close> on either
  resource makes its one storage call with the identifier as it came.
\<close>

theorem malformed_id_no_storage:
  assumes "isValid M = objectId_isValid"
      and "length (params_id req) \<noteq> 12" and "\<not> hex24 (params_id req)"
  shows "calls (serve M (get_notes_id (isValid M)) s req) = [] \<and>
         store_after (serve M (get_notes_id (isValid M)) s req) = s \<and>
         calls (serve M (put_notes_id (isValid M)) s req) = [] \<and>
         store_after (serve M (put_notes_id (isValid M)) s req) = s \<and>
         calls (serve M (get_folders_id (isValid M)) s req) = [] \<and>
         store_after (serve M (get_folders_id (isValid M)) s req) = s \<and>
         calls (serve M (put_folders_id (isValid M)) s req) = [] \<and>
         store_after (serve M (put_folders_id (isValid M)) s req) = s \<and>
         calls (serve M delete_notes_id s req) = [Note_findByIdAndRemove (params_id req)] \<and>
         calls (serve M delete_folders_id s req) = [Folder_findByIdAndRemove (params_id req)]"
proof -
  have bad: "\<not> isValid M (params_id req)"
    using assms by (simp add: objectId_isValid_def)
  have del: "calls (serve M delete_notes_id s req) = [Note_findByIdAndRemove (params_id req)] \<and>
             calls (serve M delete_folders_id s req) = [Folder_findByIdAndRemove (params_id req)]"
    by (simp add: Let_def serve_def delete_notes_id_def delete_folders_id_def split: prod.split)
  from guard_rejects [where v = "isValid M" and req = req, OF bad, of M s]
    guard_no_storage [where v = "isValid M" and req = req, OF bad, of M s] del
  show ?thesis by simp
qed

text \<open>
  C3 amended, at the identifier \<^verbatim>\<open>99-99-99\<close>.
\<close>

theorem malformed_id_no_storage_witness:
  "isValid bson_lib = objectId_isValid \<and>
   length ''99-99-99'' \<noteq> 12 \<and> \<not> hex24 ''99-99-99'' \<and>
   calls (serve bson_lib (get_notes_id (isValid bson_lib)) sample_store
            (request_for ''99-99-99'' [] [(''title'', JStr ''What about dogs?!'')] ''/api/notes/99-99-99'')) = [] \<and>
   calls (serve bson_lib (put_notes_id (isValid bson_lib)) sample_store
            (request_for ''99-99-99'' [] [(''title'', JStr ''What about dogs?!'')] ''/api/notes/99-99-99'')) = [] \<and>
   calls (serve bson_lib (get_folders_id (isValid bson_lib)) sample_store
            (request_for ''99-99-99'' [] [(''title'', JStr ''What about dogs?!'')] ''/api/notes/99-99-99'')) = [] \<and>
   calls (serve bson_lib (put_folders_id (isValid bson_lib)) sample_store
            (request_for ''99-99-99'' [] [(''title'', JStr ''What about dogs?!'')] ''/api/notes/99-99-99'')) = []"
proof -
  let ?r = "request_for ''99-99-99'' [] [(''title'', JStr ''What about dogs?!'')] ''/api/notes/99-99-99''"
  have lib: "isValid bson_lib = objectId_isValid"
    by (simp add: bson_lib_def)
  have id: "params_id ?r = ''99-99-99''"
    by (simp add: request_for_def)
  have len: "length (params_id ?r) \<noteq> 12" and hex: "\<not> hex24 (params_id ?r)"
    by (simp_all add: id hex24_def)
  from malformed_id_no_storage [OF lib len hex, of sample_store]
  have c: "calls (serve bson_lib (get_notes_id (isValid bson_lib)) sample_store ?r) = [] \<and>
           calls (serve bson_lib (put_notes_id (isValid bson_lib)) sample_store ?r) = [] \<and>
           calls (serve bson_lib (get_folders_id (isValid bson_lib)) sample_store ?r) = [] \<and>
           calls (serve bson_lib (put_folders_id (isValid bson_lib)) sample_store ?r) = []"
    by blast
  from lib len [unfolded id] hex [unfolded id] c show ?thesis by (intro conjI) blast+
qed

section \<open>Required fields\<close>

text \<open>
  C6. A \<^verbatim>\<open>POST\<close> or \<^verbatim>\<open>PUT\<close> on notes whose body has no truthy \<^verbatim>\<open>title\<close> (absent,
  \<^verbatim>\<open>null\<close>, empty, zero or false) answers 400 with \<^verbatim>\<open>Missing `title` in request body\<close>,
  and likewise on folders for \<^verbatim>\<open>name\<close>; no storage call is made and the store is
  unchanged.
\<close>

theorem missing_field_400:
  "(\<not> truthy (get_prop (body req) ''title'') \<longrightarrow>
      serve M post_notes s req =
        \<lparr>sent = error_response 400 ''Missing `title` in request body'', store_after = s, calls = []\<rparr> \<and>
      serve M (put_notes_id (isValid M)) s req =
        \<lparr>sent = error_response 400 ''Missing `title` in request body'', store_after = s, calls = []\<rparr>) \<and>
   (\<not> truthy (get_prop (body req) ''name'') \<longrightarrow>
      serve M post_folders s req =
        \<lparr>sent = error_response 400 ''Missing `name` in request body'', store_after = s, calls = []\<rparr> \<and>
      serve M (put_folders_id (isValid M)) s req =
        \<lparr>sent = error_response 400 ''Missing `name` in request body'', store_after = s, calls = []\<rparr>)"
  by (simp add: Let_def serve_def handler_defs respond_def http_error_def error_response_def)

text \<open>
  C6 on the body \<^verbatim>\<open>{ "foo": "bar" }\<close>, which has neither field.
\<close>

theorem missing_field_400_witness:
  "\<not> truthy (get_prop (body (request_for ''9999'' [] [(''foo'', JStr ''bar'')] ''/api/notes'')) ''title'') \<and>
   \<not> truthy (get_prop (body (request_for ''9999'' [] [(''foo'', JStr ''bar'')] ''/api/notes'')) ''name'') \<and>
   serve sample_lib post_notes sample_store (request_for ''9999'' [] [(''foo'', JStr ''bar'')] ''/api/notes'') =
     \<lparr>sent = error_response 400 ''Missing `title` in request body'',
      store_after = sample_store, calls = []\<rparr> \<and>
   serve sample_lib (put_notes_id (isValid sample_lib)) sample_store
       (request_for ''9999'' [] [(''foo'', JStr ''bar'')] ''/api/notes'') =
     \<lparr>sent = error_response 400 ''Missing `title` in request body'',
      store_after = sample_store, calls = []\<rparr> \<and>
   serve sample_lib post_folders sample_store (request_for ''9999'' [] [(''foo'', JStr ''bar'')] ''/api/notes'') =
     \<lparr>sent = error_response 400 ''Missing `name` in request body'',
      store_after = sample_store, calls = []\<rparr> \<and>
   serve sample_lib (put_folders_id (isValid sample_lib)) sample_store
       (request_for ''9999'' [] [(''foo'', JStr ''bar'')] ''/api/notes'') =
     \<lparr>sent = error_response 400 ''Missing `name` in request body'',
      store_after = sample_store, calls = []\<rparr>"
proof -
  let ?r = "request_for ''9999'' [] [(''foo'', JStr ''bar'')] ''/api/notes''"
  have t: "\<not> truthy (get_prop (body ?r) ''title'')" and n: "\<not> truthy (get_prop (body ?r) ''name'')"
    by (simp_all add: request_for_def get_prop_def)
  from missing_field_400 [of ?r sample_lib sample_store] t n
  show ?thesis by blast
qed

section \<open>Folder names that already exist\<close>

text \<open>
  The \<^verbatim>\<open>.catch\<close> of \<^verbatim>\<open>POST /api/folders\<close> maps an error with code 11000 to 400 and
  \<^verbatim>\<open>The folder name already exists\<close>; the \<^verbatim>\<open>.catch\<close> of \<^verbatim>\<open>PUT /api/folders/:id\<close>
  forwards every error as it is.
\<close>

lemma post_folders_maps_duplicate:
  "post_folders req = Storage call k \<Longrightarrow> err_code e = Some 11000 \<Longrightarrow>
   respond (k (Inl e)) = error_response 400 ''The folder name already exists''"
  by (auto simp: Let_def post_folders_def duplicate_catch_def respond_def http_error_def
      error_response_def split: if_splits)

lemma put_folders_forwards_error:
  "put_folders_id v req = Storage call k \<Longrightarrow> respond (k (Inl e)) = respond (Next (Some e))"
  by (auto simp: Let_def put_folders_id_def json_or_next_def split: if_splits)

text \<open>
  C7. On the sample store, renaming the first folder to the name of the second ends as
  500 with the storage layer's message, not as 400 with
  \<^verbatim>\<open>The folder name already exists\<close>; creating a folder with that name ends as 400 with
  the message.
\<close>

theorem put_folders_duplicate_name_500:
  "find_folder ''111111111111111111111101'' (stored_folders sample_store) = Some folder1 \<and>
   name folder2 = Some ''Drafts'' \<and>
   serve sample_lib (put_folders_id (isValid sample_lib)) sample_store
      (request_for ''111111111111111111111101'' [] [(''name'', JStr ''Drafts'')]
         ''/api/folders/111111111111111111111101'')
     = \<lparr>sent = error_response 500 ''E11000 duplicate key error'',
        store_after = sample_store,
        calls = [Folder_findByIdAndUpdate ''111111111111111111111101'' (JStr ''Drafts'')]\<rparr> \<and>
   sent (serve sample_lib post_folders sample_store
      (request_for [] [] [(''name'', JStr ''Drafts'')] ''/api/folders''))
     = error_response 400 ''The folder name already exists''"
  by (simp add: put_folders_id_def post_folders_def eval_defs)

section \<open>Identifiers of no stored record\<close>

text \<open>
  C8, as stated, fails for \<^verbatim>\<open>DELETE /api/folders/:id\<close>: the handler answers 204 whatever
  \<^verbatim>\<open>findByIdAndRemove\<close> resolves to, also for a well-formed identifier of no folder.
\<close>

theorem delete_folder_unknown_id_counterexample:
  "isValid sample_lib ''AAAAAAAAAAAAAAAAAAAAAAAA'' \<and>
   find_folder ''AAAAAAAAAAAAAAAAAAAAAAAA'' (stored_folders sample_store) = None \<and>
   sent (serve sample_lib delete_folders_id sample_store
           (request_for ''AAAAAAAAAAAAAAAAAAAAAAAA'' [] [] ''/api/folders/AAAAAAAAAAAAAAAAAAAAAAAA''))
     = \<lparr>status = 204, location = None, payload = Empty\<rparr>"
  by (simp add: delete_folders_id_def eval_defs)

text \<open>
  C8, amended. For a well-formed identifier of no stored record, \<^verbatim>\<open>GET\<close> and
  \<^verbatim>\<open>PUT\<close> (with a non-empty title, or name, and a body the schema accepts) on notes and
  folders and \<^verbatim>\<open>DELETE\<close> on notes answer 404; \<^verbatim>\<open>DELETE\<close> on folders answers 204.
\<close>

theorem unknown_id_404:
  assumes "isValid M (params_id req)"
  shows "(find_note (params_id req) (stored_notes s) = None \<longrightarrow>
            status (sent (serve M (get_notes_id (isValid M)) s req)) = 404 \<and>
            (truthy (get_prop (body req) ''title'') \<and>
             schema_string M (get_prop (body req) ''title'') = Inr t' \<and>
             schema_string M (get_prop (body req) ''content'') = Inr c' \<longrightarrow>
               status (sent (serve M (put_notes_id (isValid M)) s req)) = 404) \<and>
            status (sent (serve M delete_notes_id s req)) = 404) \<and>
         (find_folder (params_id req) (stored_folders s) = None \<longrightarrow>
            status (sent (serve M (get_folders_id (isValid M)) s req)) = 404 \<and>
            (truthy (get_prop (body req) ''name'') \<and>
             schema_string M (get_prop (body req) ''name'') = Inr n' \<longrightarrow>
               status (sent (serve M (put_folders_id (isValid M)) s req)) = 404) \<and>
            status (sent (serve M delete_folders_id s req)) = 204)"
  using assms
  by (simp add: Let_def serve_def handler_defs json_or_next_def respond_def)

text \<open>
  C8 amended, at the identifier \<^verbatim>\<open>AAAAAAAAAAAAAAAAAAAAAAAA\<close> on the sample store.
\<close>

theorem unknown_id_404_witness:
  "isValid sample_lib ''AAAAAAAAAAAAAAAAAAAAAAAA'' \<and>
   find_note ''AAAAAAAAAAAAAAAAAAAAAAAA'' (stored_notes sample_store) = None \<and>
   find_folder ''AAAAAAAAAAAAAAAAAAAAAAAA'' (stored_folders sample_store) = None \<and>
   status (sent (serve sample_lib (get_notes_id (isValid sample_lib)) sample_store
      (request_for ''AAAAAAAAAAAAAAAAAAAAAAAA'' []
         [(''title'', JStr ''What about dogs?!''), (''content'', JStr ''woof woof''), (''name'', JStr ''Dogs'')]
         ''/api/notes/AAAAAAAAAAAAAAAAAAAAAAAA''))) = 404 \<and>
   status (sent (serve sample_lib (put_notes_id (isValid sample_lib)) sample_store
      (request_for ''AAAAAAAAAAAAAAAAAAAAAAAA'' []
         [(''title'', JStr ''What about dogs?!''), (''content'', JStr ''woof woof''), (''name'', JStr ''Dogs'')]
         ''/api/notes/AAAAAAAAAAAAAAAAAAAAAAAA''))) = 404 \<and>
   status (sent (serve sample_lib delete_notes_id sample_store
      (request_for ''AAAAAAAAAAAAAAAAAAAAAAAA'' []
         [(''title'', JStr ''What about dogs?!''), (''content'', JStr ''woof woof''), (''name'', JStr ''Dogs'')]
         ''/api/notes/AAAAAAAAAAAAAAAAAAAAAAAA''))) = 404 \<and>
   status (sent (serve sample_lib (get_folders_id (isValid sample_lib)) sample_store
      (request_for ''AAAAAAAAAAAAAAAAAAAAAAAA'' []
         [(''title'', JStr ''What about dogs?!''), (''content'', JStr ''woof woof''), (''name'', JStr ''Dogs'')]
         ''/api/notes/AAAAAAAAAAAAAAAAAAAAAAAA''))) = 404 \<and>
   status (sent (serve sample_lib (put_folders_id (isValid sample_lib)) sample_store
      (request_for ''AAAAAAAAAAAAAAAAAAAAAAAA'' []
         [(''title'', JStr ''What about dogs?!''), (''content'', JStr ''woof woof''), (''name'', JStr ''Dogs'')]
         ''/api/notes/AAAAAAAAAAAAAAAAAAAAAAAA''))) = 404"
proof -
  let ?r = "request_for ''AAAAAAAAAAAAAAAAAAAAAAAA'' []
         [(''title'', JStr ''What about dogs?!''), (''content'', JStr ''woof woof''), (''name'', JStr ''Dogs'')]
         ''/api/notes/AAAAAAAAAAAAAAAAAAAAAAAA''"
  have id: "params_id ?r = ''AAAAAAAAAAAAAAAAAAAAAAAA''"
    by (simp add: request_for_def)
  have ok: "isValid sample_lib (params_id ?r)"
    by (simp add: sample_lib_def hex24_def request_for_def)
  have nn: "find_note (params_id ?r) (stored_notes sample_store) = None"
    by (simp add: request_for_def find_note_def sample_store_def note1_def note2_def)
  have nf: "find_folder (params_id ?r) (stored_folders sample_store) = None"
    by (simp add: request_for_def find_folder_def sample_store_def folder1_def folder2_def)
  have b: "truthy (get_prop (body ?r) ''title'')"
          "schema_string sample_lib (get_prop (body ?r) ''title'') = Inr (Some ''What about dogs?!'')"
          "schema_string sample_lib (get_prop (body ?r) ''content'') = Inr (Some ''woof woof'')"
          "truthy (get_prop (body ?r) ''name'')"
          "schema_string sample_lib (get_prop (body ?r) ''name'') = Inr (Some ''Dogs'')"
    by (simp_all add: request_for_def get_prop_def schema_string_def)
  from unknown_id_404 [OF ok, of sample_store "Some ''What about dogs?!''" "Some ''woof woof''" "Some ''Dogs''"]
    nn nf b ok id
  show ?thesis by simp
qed

section \<open>An empty search term\<close>

text \<open>
  C9. \<^verbatim>\<open>GET /api/notes\<close> with \<^verbatim>\<open>searchTerm\<close> equal to the empty string is served
  exactly as the request without the parameter: the one storage call has no text filter,
  no score projection and sorts by \<^verbatim>\<open>created\<close>, and the response is every stored note
  in ascending order of the creation time.
\<close>

theorem empty_search_term_as_absent:
  assumes "query req ''searchTerm'' = Some (JStr [])"
  shows "serve M get_notes s req = serve M get_notes s (req\<lparr>query := (query req)(''searchTerm'' := None)\<rparr>) \<and>
         calls (serve M get_notes s req) =
           [Note_find \<lparr>text_search = None\<rparr> \<lparr>score_meta = False\<rparr>
              [''title'', ''content'', ''created''] (Sort_path ''created'')] \<and>
         sent (serve M get_notes s req) =
           \<lparr>status = 200, location = None,
            payload = Json (Note_docs
              (map (select_note [''title'', ''content'', ''created''] no_projection)
                 (sort_key created_key (stored_notes s))))\<rparr>"
proof -
  have a: "\<not> truthy (get_prop (query req) ''searchTerm'')"
    using assms by (simp add: get_prop_def)
  have b: "\<not> truthy (get_prop (query (req\<lparr>query := (query req)(''searchTerm'' := None)\<rparr>)) ''searchTerm'')"
    by (simp add: get_prop_def)
  show ?thesis
    by (simp add: get_notes_plain [OF a] get_notes_plain [OF b])
qed

text \<open>
  C9 on the sample store.
\<close>

theorem empty_search_term_as_absent_witness:
  "query (request_for [] [(''searchTerm'', JStr [])] [] ''/api/notes?searchTerm='') ''searchTerm''
     = Some (JStr []) \<and>
   serve sample_lib get_notes sample_store (request_for [] [(''searchTerm'', JStr [])] [] ''/api/notes?searchTerm='')
     = serve sample_lib get_notes sample_store
         ((request_for [] [(''searchTerm'', JStr [])] [] ''/api/notes?searchTerm='')
            \<lparr>query := (query (request_for [] [(''searchTerm'', JStr [])] [] ''/api/notes?searchTerm=''))
                        (''searchTerm'' := None)\<rparr>) \<and>
   sent (serve sample_lib get_notes sample_store (request_for [] [(''searchTerm'', JStr [])] [] ''/api/notes?searchTerm=''))
     = \<lparr>status = 200, location = None,
        payload = Json (Note_docs
          [\<lparr>doc_id = ''000000000000000000000002'', title = Some ''gaga'', content = Some ''dogs'',
            folderId = None, tags = None, created = Some 10, score = None\<rparr>,
           \<lparr>doc_id = ''000000000000000000000001'', title = Some ''cats'', content = Some ''gaga'',
            folderId = None, tags = None, created = Some 20, score = None\<rparr>])\<rparr>"
proof -
  let ?r = "request_for [] [(''searchTerm'', JStr [])] [] ''/api/notes?searchTerm=''"
  have h: "query ?r ''searchTerm'' = Some (JStr [])"
    by (simp add: request_for_def)
  have ev: "map (select_note [''title'', ''content'', ''created''] no_projection)
                 (sort_key created_key (stored_notes sample_store))
          = [\<lparr>doc_id = ''000000000000000000000002'', title = Some ''gaga'', content = Some ''dogs'',
            folderId = None, tags = None, created = Some 10, score = None\<rparr>,
           \<lparr>doc_id = ''000000000000000000000001'', title = Some ''cats'', content = Some ''gaga'',
            folderId = None, tags = None, created = Some 20, score = None\<rparr>]"
    by (simp add: eval_defs)
  note th = empty_search_term_as_absent [OF h, of sample_lib sample_store]
  from th have same: "serve sample_lib get_notes sample_store ?r
      = serve sample_lib get_notes sample_store (?r\<lparr>query := (query ?r)(''searchTerm'' := None)\<rparr>)"
    by (rule conjunct1)
  from th have res: "sent (serve sample_lib get_notes sample_store ?r) =
           \<lparr>status = 200, location = None,
            payload = Json (Note_docs
              (map (select_note [''title'', ''content'', ''created''] no_projection)
                 (sort_key created_key (stored_notes sample_store))))\<rparr>"
    by (rule conjunct2 [THEN conjunct2])
  from h same res [unfolded ev] show ?thesis by (intro conjI)
qed

section \<open>Creating a note\<close>

text \<open>
  C10. \<^verbatim>\<open>POST /api/notes\<close> with a non-empty title passes only the title and the
  content of the body to \<^verbatim>\<open>Note.create\<close>: setting or removing \<^verbatim>\<open>folderId\<close> and
  \<^verbatim>\<open>tags\<close> in the body changes nothing, and a note that is created has no folder
  reference and no tags.
\<close>

theorem post_notes_title_content_only:
  assumes "truthy (get_prop (body req) ''title'')"
  shows "calls (serve M post_notes s req)
           = [Note_create (get_prop (body req) ''title'') (get_prop (body req) ''content'')] \<and>
         serve M post_notes s (req\<lparr>body := (body req)(''folderId'' := x, ''tags'' := y)\<rparr>)
           = serve M post_notes s req \<and>
         (stored_notes (store_after (serve M post_notes s req)) = stored_notes s \<or>
          (\<exists>d. stored_notes (store_after (serve M post_notes s req)) = stored_notes s @ [d] \<and>
               folderId d = None \<and> tags d = Some []))"
proof -
  have c: "calls (serve M post_notes s req)
           = [Note_create (get_prop (body req) ''title'') (get_prop (body req) ''content'')]"
    using assms by (simp add: Let_def serve_def post_notes_def split: prod.split)
  have e: "post_notes (req\<lparr>body := (body req)(''folderId'' := x, ''tags'' := y)\<rparr>) = post_notes req"
    by (simp add: Let_def post_notes_def get_prop_def created_reply_def fun_eq_iff
        split: sum.split option.split)
  have f: "serve M post_notes s (req\<lparr>body := (body req)(''folderId'' := x, ''tags'' := y)\<rparr>)
           = serve M post_notes s req"
    by (simp add: serve_def e)
  have g: "stored_notes (store_after (serve M post_notes s req)) = stored_notes s \<or>
          (\<exists>d. stored_notes (store_after (serve M post_notes s req)) = stored_notes s @ [d] \<and>
               folderId d = None \<and> tags d = Some [])"
    using assms
    by (simp add: Let_def serve_def post_notes_def split: prod.split sum.split option.split)
  from c f g show ?thesis by (intro conjI)
qed

text \<open>
  C10 on a body that carries a folder reference and a tag.
\<close>

theorem post_notes_title_content_only_witness:
  "truthy (get_prop (body (request_for [] []
       [(''title'', JStr ''The best article about cats ever!''), (''content'', JStr ''Lorem ipsum''),
        (''folderId'', JStr ''111111111111111111111101''), (''tags'', JArr [JStr ''222222222222222222222201''])]
       ''/api/notes'')) ''title'') \<and>
   calls (serve sample_lib post_notes sample_store (request_for [] []
       [(''title'', JStr ''The best article about cats ever!''), (''content'', JStr ''Lorem ipsum''),
        (''folderId'', JStr ''111111111111111111111101''), (''tags'', JArr [JStr ''222222222222222222222201''])]
       ''/api/notes''))
     = [Note_create (JStr ''The best article about cats ever!'') (JStr ''Lorem ipsum'')] \<and>
   stored_notes (store_after (serve sample_lib post_notes sample_store (request_for [] []
       [(''title'', JStr ''The best article about cats ever!''), (''content'', JStr ''Lorem ipsum''),
        (''folderId'', JStr ''111111111111111111111101''), (''tags'', JArr [JStr ''222222222222222222222201''])]
       ''/api/notes'')))
     = [note1, note2,
        \<lparr>doc_id = ''5a9f2b6c1d8e4f0a7b3c9d10'', title = Some ''The best article about cats ever!'',
         content = Some ''Lorem ipsum'', folderId = None, tags = Some [], created = Some 30,
         score = None\<rparr>]"
proof -
  let ?r = "request_for [] []
       [(''title'', JStr ''The best article about cats ever!''), (''content'', JStr ''Lorem ipsum''),
        (''folderId'', JStr ''111111111111111111111101''), (''tags'', JArr [JStr ''222222222222222222222201''])]
       ''/api/notes''"
  have h: "truthy (get_prop (body ?r) ''title'')"
    by (simp add: request_for_def get_prop_def)
  have t: "get_prop (body ?r) ''title'' = JStr ''The best article about cats ever!''"
    and c: "get_prop (body ?r) ''content'' = JStr ''Lorem ipsum''"
    by (simp_all add: request_for_def get_prop_def)
  from post_notes_title_content_only [OF h, of sample_lib sample_store]
  have cl: "calls (serve sample_lib post_notes sample_store ?r)
     = [Note_create (JStr ''The best article about cats ever!'') (JStr ''Lorem ipsum'')]"
    unfolding t c by (rule conjunct1)
  have ev: "stored_notes (store_after (serve sample_lib post_notes sample_store ?r))
     = [note1, note2,
        \<lparr>doc_id = ''5a9f2b6c1d8e4f0a7b3c9d10'', title = Some ''The best article about cats ever!'',
         content = Some ''Lorem ipsum'', folderId = None, tags = Some [], created = Some 30,
         score = None\<rparr>]"
    by (simp add: post_notes_def Let_def serve_def get_prop_def request_for_def schema_string_def
        sample_lib_def sample_store_def)
  from h cl ev show ?thesis by (intro conjI)
qed

text \<open>
  C5. \<^verbatim>\<open>POST /api/notes\<close> with a non-empty string as title, and a string or nothing as
  content, answers 201 with the Location \<^verbatim>\<open>originalUrl/id\<close> and the created note: the
  submitted title and content and the generated identifier. A following
  \<^verbatim>\<open>GET /api/notes/:id\<close> with that identifier answers 200 with the same title and
  content. The store is taken to generate a well-formed identifier that no stored note has.
\<close>

theorem post_notes_then_get:
  assumes "get_prop (body req) ''title'' = JStr t" and "t \<noteq> []"
      and "get_prop (body req) ''content'' = (case co of None \<Rightarrow> JUndefined | Some c \<Rightarrow> JStr c)"
      and "isValid M (newId M s)"
      and "find_note (newId M s) (stored_notes s) = None"
      and "params_id req' = newId M s"
  shows "sent (serve M post_notes s req)
           = \<lparr>status = 201, location = Some (originalUrl req @ ''/'' @ newId M s),
              payload = Json (Note_doc
                \<lparr>doc_id = newId M s, title = Some t, content = co, folderId = None,
                 tags = Some [], created = Some (clock s), score = None\<rparr>)\<rparr> \<and>
         sent (serve M (get_notes_id (isValid M)) (store_after (serve M post_notes s req)) req')
           = \<lparr>status = 200, location = None,
              payload = Json (Note_doc
                \<lparr>doc_id = newId M s, title = Some t, content = co, folderId = None,
                 tags = None, created = None, score = None\<rparr>)\<rparr>"
proof -
  let ?d = "\<lparr>doc_id = newId M s, title = Some t, content = co, folderId = None,
             tags = Some [], created = Some (clock s), score = None\<rparr>"
  have cast: "schema_string M (get_prop (body req) ''content'') = Inr co"
    using assms(3) by (simp add: schema_string_def split: option.split)
  have run: "serve M post_notes s req
      = \<lparr>sent = \<lparr>status = 201, location = Some (originalUrl req @ ''/'' @ newId M s),
                 payload = Json (Note_doc ?d)\<rparr>,
         store_after = s\<lparr>stored_notes := stored_notes s @ [?d]\<rparr>,
         calls = [Note_create (JStr t) (get_prop (body req) ''content'')]\<rparr>"
    using assms(1,2) cast
    by (simp add: Let_def serve_def post_notes_def schema_string_def created_reply_def respond_def)
  have look: "find_note (newId M s) (stored_notes s @ [?d]) = Some ?d"
    using find_note_append [OF assms(5), of ?d] by simp
  have get: "sent (serve M (get_notes_id (isValid M)) (s\<lparr>stored_notes := stored_notes s @ [?d]\<rparr>) req')
      = \<lparr>status = 200, location = None,
         payload = Json (Note_doc
           \<lparr>doc_id = newId M s, title = Some t, content = co, folderId = None,
            tags = None, created = None, score = None\<rparr>)\<rparr>"
    using assms(4,6) look
    by (simp add: Let_def serve_def get_notes_id_def json_or_next_def respond_def
        select_note_def keeps_def no_projection_def)
  show ?thesis
    by (simp add: run get)
qed

text \<open>
  C5 on the sample store.
\<close>

theorem post_notes_then_get_witness:
  "isValid sample_lib (newId sample_lib sample_store) \<and>
   find_note (newId sample_lib sample_store) (stored_notes sample_store) = None \<and>
   sent (serve sample_lib post_notes sample_store
          (request_for [] []
             [(''title'', JStr ''The best article about cats ever!''), (''content'', JStr ''Lorem ipsum''),
              (''tags'', JArr [])]
             ''/api/notes''))
     = \<lparr>status = 201, location = Some ''/api/notes/5a9f2b6c1d8e4f0a7b3c9d10'',
        payload = Json (Note_doc
          \<lparr>doc_id = ''5a9f2b6c1d8e4f0a7b3c9d10'', title = Some ''The best article about cats ever!'',
           content = Some ''Lorem ipsum'', folderId = None, tags = Some [], created = Some 30,
           score = None\<rparr>)\<rparr> \<and>
   sent (serve sample_lib (get_notes_id (isValid sample_lib))
          (store_after (serve sample_lib post_notes sample_store
             (request_for [] []
                [(''title'', JStr ''The best article about cats ever!''), (''content'', JStr ''Lorem ipsum''),
                 (''tags'', JArr [])]
                ''/api/notes'')))
          (request_for ''5a9f2b6c1d8e4f0a7b3c9d10'' [] [] ''/api/notes/5a9f2b6c1d8e4f0a7b3c9d10''))
     = \<lparr>status = 200, location = None,
        payload = Json (Note_doc
          \<lparr>doc_id = ''5a9f2b6c1d8e4f0a7b3c9d10'', title = Some ''The best article about cats ever!'',
           content = Some ''Lorem ipsum'', folderId = None, tags = None, created = None,
           score = None\<rparr>)\<rparr>"
proof -
  let ?r = "request_for [] []
             [(''title'', JStr ''The best article about cats ever!''), (''content'', JStr ''Lorem ipsum''),
              (''tags'', JArr [])]
             ''/api/notes''"
  let ?g = "request_for ''5a9f2b6c1d8e4f0a7b3c9d10'' [] [] ''/api/notes/5a9f2b6c1d8e4f0a7b3c9d10''"
  have nid: "newId sample_lib sample_store = ''5a9f2b6c1d8e4f0a7b3c9d10''"
    by (simp add: sample_lib_def)
  have t: "get_prop (body ?r) ''title'' = JStr ''The best article about cats ever!''"
    by (simp add: request_for_def get_prop_def)
  have ne: "''The best article about cats ever!'' \<noteq> []"
    by simp
  have c: "get_prop (body ?r) ''content''
      = (case Some ''Lorem ipsum'' of None \<Rightarrow> JUndefined | Some c \<Rightarrow> JStr c)"
    by (simp add: request_for_def get_prop_def)
  have ok: "isValid sample_lib (newId sample_lib sample_store)"
    by (simp add: sample_lib_def hex24_def)
  have fresh: "find_note (newId sample_lib sample_store) (stored_notes sample_store) = None"
    by (simp add: sample_lib_def find_note_def sample_store_def note1_def note2_def)
  have g: "params_id ?g = newId sample_lib sample_store"
    by (simp add: request_for_def sample_lib_def)
  have url: "originalUrl ?r @ ''/'' @ ''5a9f2b6c1d8e4f0a7b3c9d10'' = ''/api/notes/5a9f2b6c1d8e4f0a7b3c9d10''"
    by (simp add: request_for_def)
  have clk: "clock sample_store = 30"
    by (simp add: sample_store_def)
  note th = post_notes_then_get [OF t ne c ok fresh g]
  from th have a: "sent (serve sample_lib post_notes sample_store ?r)
     = \<lparr>status = 201, location = Some ''/api/notes/5a9f2b6c1d8e4f0a7b3c9d10'',
        payload = Json (Note_doc
          \<lparr>doc_id = ''5a9f2b6c1d8e4f0a7b3c9d10'', title = Some ''The best article about cats ever!'',
           content = Some ''Lorem ipsum'', folderId = None, tags = Some [], created = Some 30,
           score = None\<rparr>)\<rparr>"
    unfolding nid url clk by (rule conjunct1)
  from th have b: "sent (serve sample_lib (get_notes_id (isValid sample_lib))
          (store_after (serve sample_lib post_notes sample_store ?r)) ?g)
     = \<lparr>status = 200, location = None,
        payload = Json (Note_doc
          \<lparr>doc_id = ''5a9f2b6c1d8e4f0a7b3c9d10'', title = Some ''The best article about cats ever!'',
           content = Some ''Lorem ipsum'', folderId = None, tags = None, created = None,
           score = None\<rparr>)\<rparr>"
    unfolding nid by (rule conjunct2)
  from ok fresh a b show ?thesis by (intro conjI)
qed

section \<open>Updating a note\<close>

text \<open>
  C4. The handler passes only the title and the content of the body to
  \<^verbatim>\<open>findByIdAndUpdate\<close> and selects \<^verbatim>\<open>id title content\<close>. On the body of the update test
  (a title, a content, the folder \<^verbatim>\<open>111111111111111111111100\<close> and the tag
  \<^verbatim>\<open>222222222222222222222299\<close>) the stored note gets the new title and content and keeps
  its old folder and its old tag, and the response carries the identifier, the title and
  the content only: the folder reference and the tags are not replaced from the body, and
  the response has no \<^verbatim>\<open>folderId\<close>, \<^verbatim>\<open>tags\<close> or \<^verbatim>\<open>created\<close>.
\<close>

theorem put_notes_ignores_folder_and_tags:
  "get_prop (body (request_for ''000000000000000000000001'' []
       [(''title'', JStr ''What about dogs?!''), (''content'', JStr ''woof woof''),
        (''folderId'', JStr ''111111111111111111111100''),
        (''tags'', JArr [JStr ''222222222222222222222299''])]
       ''/api/notes/000000000000000000000001'')) ''folderId'' = JStr ''111111111111111111111100'' \<and>
   get_prop (body (request_for ''000000000000000000000001'' []
       [(''title'', JStr ''What about dogs?!''), (''content'', JStr ''woof woof''),
        (''folderId'', JStr ''111111111111111111111100''),
        (''tags'', JArr [JStr ''222222222222222222222299''])]
       ''/api/notes/000000000000000000000001'')) ''tags'' = JArr [JStr ''222222222222222222222299''] \<and>
   calls (serve sample_lib (put_notes_id (isValid sample_lib)) sample_store
        (request_for ''000000000000000000000001'' []
           [(''title'', JStr ''What about dogs?!''), (''content'', JStr ''woof woof''),
            (''folderId'', JStr ''111111111111111111111100''),
            (''tags'', JArr [JStr ''222222222222222222222299''])]
           ''/api/notes/000000000000000000000001''))
     = [Note_findByIdAndUpdate ''000000000000000000000001'' (JStr ''What about dogs?!'')
          (JStr ''woof woof'') [''id'', ''title'', ''content'']] \<and>
   find_note ''000000000000000000000001''
     (stored_notes (store_after (serve sample_lib (put_notes_id (isValid sample_lib)) sample_store
        (request_for ''000000000000000000000001'' []
           [(''title'', JStr ''What about dogs?!''), (''content'', JStr ''woof woof''),
            (''folderId'', JStr ''111111111111111111111100''),
            (''tags'', JArr [JStr ''222222222222222222222299''])]
           ''/api/notes/000000000000000000000001''))))
     = Some \<lparr>doc_id = ''000000000000000000000001'', title = Some ''What about dogs?!'',
             content = Some ''woof woof'', folderId = Some ''111111111111111111111101'',
             tags = Some [''222222222222222222222201''], created = Some 20, score = None\<rparr> \<and>
   sent (serve sample_lib (put_notes_id (isValid sample_lib)) sample_store
        (request_for ''000000000000000000000001'' []
           [(''title'', JStr ''What about dogs?!''), (''content'', JStr ''woof woof''),
            (''folderId'', JStr ''111111111111111111111100''),
            (''tags'', JArr [JStr ''222222222222222222222299''])]
           ''/api/notes/000000000000000000000001''))
     = \<lparr>status = 200, location = None,
        payload = Json (Note_doc
          \<lparr>doc_id = ''000000000000000000000001'', title = Some ''What about dogs?!'',
           content = Some ''woof woof'', folderId = None, tags = None, created = None,
           score = None\<rparr>)\<rparr>"
  by (simp add: put_notes_id_def eval_defs)

end
